theory Spec2Isabelle
  imports Main "HOL-Library.Char_ord" "HOL-Library.List_Lexorder" "HOL-Library.Multiset"
begin

section \<open>Data model of \<^verbatim>\<open>src/module/item/abc/manager.ts\<close>\<close>

text \<open>
  \<^verbatim>\<open>ABCFeatureEntryData\<close>: one slot of an ancestry, background or class item. The source
  reads \<^verbatim>\<open>entry.pack\<close>, \<^verbatim>\<open>entry.id\<close> and \<^verbatim>\<open>entry.level\<close>. A pack that is absent is \<open>None\<close>;
  \<^verbatim>\<open>!!entry.pack\<close> is also false for the empty string.
\<close>

record ABCFeatureEntryData =
  pack :: "string option"
  entry_id :: string
  entry_level :: int

text \<open>
  Source data of an item (\<^verbatim>\<open>ItemSourcePF2e\<close>, of which \<^verbatim>\<open>FeatSource\<close>, \<^verbatim>\<open>ClassSource\<close>,
  \<^verbatim>\<open>AncestrySource\<close> and \<^verbatim>\<open>BackgroundSource\<close> are the cases the manager handles), with the
  fields the manager reads or writes:
  \<^verbatim>\<open>_id\<close>, \<^verbatim>\<open>name\<close>, \<^verbatim>\<open>type\<close>, \<^verbatim>\<open>data.slug\<close>, \<^verbatim>\<open>data.level.value\<close>, \<^verbatim>\<open>data.location\<close>,
  \<^verbatim>\<open>data.featType.value\<close>, \<^verbatim>\<open>flags.core?.sourceId\<close>, \<^verbatim>\<open>Object.values(data.items)\<close> and
  \<^verbatim>\<open>flags.pf2e.insertedClassFeaturesLevel\<close>.
  Levels are the integers the class items carry; names are compared as lists of
  characters in the lexicographic order of their codes, as JavaScript compares strings.
\<close>

record ItemSourcePF2e =
  ident :: string
  name :: string
  itype :: string
  slug :: "string option"
  level :: int
  location :: "string option"
  featType :: string
  sourceId :: "string option"
  items :: "ABCFeatureEntryData list"
  insertedClassFeaturesLevel :: "int option"

text \<open>
  A document fetched from a compendium: its \<^verbatim>\<open>_source\<close> and the prepared data that the
  getters (\<^verbatim>\<open>featType\<close>, \<^verbatim>\<open>level\<close>) read. \<^verbatim>\<open>toObject()\<close> returns the source.
\<close>

record Document =
  source :: ItemSourcePF2e
  data :: ItemSourcePF2e

text \<open>
  The ambient \<^verbatim>\<open>game\<close>: the compendium packs by name with the records they store,
  the world items by id, the identifiers that successive calls of \<^verbatim>\<open>randomID(16)\<close>
  return, and \<^verbatim>\<open>sluggify\<close> of \<^verbatim>\<open>@util\<close>.
\<close>

record Game =
  packs :: "string \<Rightarrow> ItemSourcePF2e list option"
  game_items :: "string \<Rightarrow> ItemSourcePF2e option"
  randomID :: "nat \<Rightarrow> string"
  sluggify :: "string \<Rightarrow> string"

text \<open>
  The character: its level and its embedded items, each represented by its source data
  (the getters \<^verbatim>\<open>id\<close>, \<^verbatim>\<open>level\<close>, \<^verbatim>\<open>featType\<close> and \<^verbatim>\<open>sourceId\<close> of an embedded item read the
  fields of that data).
\<close>

record CharacterPF2e =
  actor_level :: int
  actor_items :: "ItemSourcePF2e list"

record ABCManagerOptions =
  assurance :: "string list option"

datatype error =
    InvalidABCType
  | InvalidReference
  | CannotFind string string
  | PackNotFound string
  | TypeError

text \<open>
  \<open>InvalidABCType\<close> is \<^verbatim>\<open>ErrorPF2e("Invalid item type for ABC creation!")\<close>,
  \<open>InvalidReference\<close> is \<^verbatim>\<open>ErrorPF2e("Invalid item type referenced in ABCFeatureEntryData")\<close>,
  \<open>CannotFind name packName\<close> is the error of \<^verbatim>\<open>getItemSource\<close>, \<open>PackNotFound\<close> is what
  \<^verbatim>\<open>game.packs.get(pack, { strict: true })\<close> throws for a pack that does not exist, and
  \<open>TypeError\<close> is what reading \<^verbatim>\<open>.value\<close> of an undefined \<^verbatim>\<open>featType\<close> throws.
\<close>

type_synonym query = "string \<times> string list"

section \<open>Collaborators\<close>

text \<open>
  Modelled from the spec: \<^verbatim>\<open>prepareData\<close> is not in the source file. It recomputes the
  derived data of a document from its \<^verbatim>\<open>_source\<close>; on the fields modelled here the derived
  data is the copy of the source. A document built from a stored record is prepared.
\<close>

definition prepareData :: "Document \<Rightarrow> Document" where
  "prepareData d = d\<lparr>data := source d\<rparr>"

definition fromSource :: "ItemSourcePF2e \<Rightarrow> Document" where
  "fromSource s = \<lparr>source = s, data = s\<rparr>"

definition toObject :: "Document \<Rightarrow> ItemSourcePF2e" where
  "toObject d = source d"

text \<open>\<^verbatim>\<open>pack.getDocuments({ _id: { $in: entryIds } })\<close> and the query by slug.\<close>

definition getDocuments :: "ItemSourcePF2e list \<Rightarrow> string list \<Rightarrow> Document list" where
  "getDocuments stored entryIds = map fromSource (filter (\<lambda>s. ident s \<in> set entryIds) stored)"

definition getDocumentsBySlug :: "ItemSourcePF2e list \<Rightarrow> string \<Rightarrow> Document list" where
  "getDocumentsBySlug stored sl = map fromSource (filter (\<lambda>s. slug s = Some sl) stored)"

text \<open>The elements of \<^verbatim>\<open>new Set(xs)\<close> in iteration order: first occurrences, in order.\<close>

definition jsSet :: "'a list \<Rightarrow> 'a list" where
  "jsSet xs = rev (remdups (rev xs))"

text \<open>
  Modelled from the spec: the character record is not in the source file.
  \<^verbatim>\<open>actor.ancestry\<close>, \<^verbatim>\<open>actor.background\<close> and \<^verbatim>\<open>actor.class\<close> are the attached item of that
  type, if any; \<^verbatim>\<open>delete()\<close> detaches it; \<^verbatim>\<open>createEmbeddedDocuments\<close> with \<^verbatim>\<open>keepId\<close> appends
  the given sources with their identifiers; \<^verbatim>\<open>deleteEmbeddedDocuments\<close> removes the items
  with the given identifiers.
\<close>

definition attachedOfType :: "CharacterPF2e \<Rightarrow> string \<Rightarrow> ItemSourcePF2e option" where
  "attachedOfType actor t = find (\<lambda>i. itype i = t) (actor_items actor)"

definition deleteEmbeddedDocuments :: "CharacterPF2e \<Rightarrow> string list \<Rightarrow> CharacterPF2e" where
  "deleteEmbeddedDocuments actor ids =
     actor\<lparr>actor_items := filter (\<lambda>i. ident i \<notin> set ids) (actor_items actor)\<rparr>"

definition deleteAttached :: "CharacterPF2e \<Rightarrow> string \<Rightarrow> CharacterPF2e" where
  "deleteAttached actor t =
     (case attachedOfType actor t of
        None \<Rightarrow> actor
      | Some i \<Rightarrow> deleteEmbeddedDocuments actor [ident i])"

definition createEmbeddedDocuments :: "CharacterPF2e \<Rightarrow> ItemSourcePF2e list \<Rightarrow> CharacterPF2e" where
  "createEmbeddedDocuments actor srcs = actor\<lparr>actor_items := actor_items actor @ srcs\<rparr>"

text \<open>\<^verbatim>\<open>actor.itemTypes.feat.filter((feat) => feat.featType.value === "classfeature")\<close>\<close>

definition classFeatures :: "CharacterPF2e \<Rightarrow> ItemSourcePF2e list" where
  "classFeatures actor =
     filter (\<lambda>feat. featType feat = ''classfeature'')
       (filter (\<lambda>i. itype i = ''feat'') (actor_items actor))"

text \<open>
  \<^verbatim>\<open>Array.prototype.sort(compare)\<close>, as a stable insertion sort driven by the sign of the
  comparator.
\<close>

fun insertBy :: "('a \<Rightarrow> 'a \<Rightarrow> int) \<Rightarrow> 'a \<Rightarrow> 'a list \<Rightarrow> 'a list" where
  "insertBy cmp x [] = [x]"
| "insertBy cmp x (y # ys) = (if cmp x y > 0 then y # insertBy cmp x ys else x # y # ys)"

definition sortBy :: "('a \<Rightarrow> 'a \<Rightarrow> int) \<Rightarrow> 'a list \<Rightarrow> 'a list" where
  "sortBy cmp xs = foldr (insertBy cmp) xs []"

section \<open>The manager\<close>

subsection \<open>\<^verbatim>\<open>getFromCompendium\<close>\<close>

text \<open>
  The body of the inner loop: the entry is the first one whose id is the feature's. When
  there is one, \<^verbatim>\<open>feature.featType.value\<close> is read, before any \<^verbatim>\<open>instanceof\<close> check: only a
  \<^verbatim>\<open>FeatPF2e\<close>, a document of type \<^verbatim>\<open>feat\<close>, has a \<^verbatim>\<open>featType\<close>, so on another document the
  read throws. A class feature gets the entry's level in its source, and is prepared
  again.
\<close>

definition setLevel :: "ABCFeatureEntryData list \<Rightarrow> Document \<Rightarrow> error + Document" where
  "setLevel entries feature =
     (case find (\<lambda>e. entry_id e = ident (data feature)) entries of
        Some entry \<Rightarrow>
          if itype (data feature) \<noteq> ''feat'' then Inl TypeError
          else if featType (data feature) = ''classfeature''
          then Inr (prepareData (feature\<lparr>source := (source feature)\<lparr>level := entry_level entry\<rparr>\<rparr>))
          else Inr feature
      | None \<Rightarrow> Inr feature)"

text \<open>The inner loop over the documents of one pack: it stops at the first error.\<close>

fun forFeatures :: "ABCFeatureEntryData list \<Rightarrow> Document list \<Rightarrow> error + Document list" where
  "forFeatures entries [] = Inr []"
| "forFeatures entries (feature # rest) =
     (case setLevel entries feature of
        Inl e \<Rightarrow> Inl e
      | Inr feature' \<Rightarrow>
          (case forFeatures entries rest of
             Inl e \<Rightarrow> Inl e
           | Inr rest' \<Rightarrow> Inr (feature' # rest')))"

text \<open>
  The loop over the packs. The result carries the queries issued, in order, each with the
  pack and the ids asked for, beside the documents or the error.
\<close>

fun forPacks :: "Game \<Rightarrow> ABCFeatureEntryData list \<Rightarrow> string list \<Rightarrow> Document list
    \<Rightarrow> query list \<times> (error + Document list)" where
  "forPacks g entries [] feats = ([], Inr feats)"
| "forPacks g entries (p # ps) feats =
     (let entryIds = map entry_id (filter (\<lambda>entry. pack entry = Some p) entries) in
      case packs g p of
        None \<Rightarrow> ([], Inl (PackNotFound p))
      | Some stored \<Rightarrow>
          (case forFeatures entries (getDocuments stored entryIds) of
             Inl e \<Rightarrow> ([(p, entryIds)], Inl e)
           | Inr features \<Rightarrow>
               (let rest = forPacks g entries ps (feats @ features)
                in ((p, entryIds) # fst rest, snd rest))))"

definition getFromCompendium :: "Game \<Rightarrow> ABCFeatureEntryData list
    \<Rightarrow> query list \<times> (error + Document list)" where
  "getFromCompendium g entries = forPacks g entries (jsSet (List.map_filter pack entries)) []"

subsection \<open>\<^verbatim>\<open>getFeatures\<close>\<close>

definition isPackEntry :: "ABCFeatureEntryData \<Rightarrow> bool" where
  "isPackEntry entry = (case pack entry of None \<Rightarrow> False | Some p \<Rightarrow> p \<noteq> [])"

text \<open>
  The two maps of \<^verbatim>\<open>getFeatures\<close>. \<^verbatim>\<open>instanceof FeatPF2e\<close> holds for the documents of type
  \<^verbatim>\<open>feat\<close>. The number threaded through counts the calls of \<^verbatim>\<open>randomID\<close>.
\<close>

fun compendiumFeats :: "Game \<Rightarrow> nat \<Rightarrow> string \<Rightarrow> Document list
    \<Rightarrow> error + (nat \<times> ItemSourcePF2e list)" where
  "compendiumFeats g n locationId [] = Inr (n, [])"
| "compendiumFeats g n locationId (feat # rest) =
     (if itype (source feat) = ''feat''
      then (let featSource = (toObject feat)\<lparr>ident := randomID g n, location := Some locationId\<rparr> in
            case compendiumFeats g (Suc n) locationId rest of
              Inl e \<Rightarrow> Inl e
            | Inr (n', fs) \<Rightarrow> Inr (n', featSource # fs))
      else Inl InvalidReference)"

fun gameFeats :: "Game \<Rightarrow> nat \<Rightarrow> ABCFeatureEntryData list
    \<Rightarrow> error + (nat \<times> ItemSourcePF2e list)" where
  "gameFeats g n [] = Inr (n, [])"
| "gameFeats g n (entry # rest) =
     (case game_items g (entry_id entry) of
        None \<Rightarrow> Inl InvalidReference
      | Some item \<Rightarrow>
          if itype item = ''feat''
          then (let itemData = item\<lparr>ident := randomID g n\<rparr> in
                case gameFeats g (Suc n) rest of
                  Inl e \<Rightarrow> Inl e
                | Inr (n', fs) \<Rightarrow> Inr (n', itemData # fs))
          else Inl InvalidReference)"

definition packFeats :: "Game \<Rightarrow> nat \<Rightarrow> ABCFeatureEntryData list \<Rightarrow> string
    \<Rightarrow> error + (nat \<times> ItemSourcePF2e list)" where
  "packFeats g n entries locationId =
     (let packEntries = filter isPackEntry entries in
      if packEntries \<noteq> []
      then (case snd (getFromCompendium g packEntries) of
              Inl e \<Rightarrow> Inl e
            | Inr docs \<Rightarrow> compendiumFeats g n locationId docs)
      else Inr (n, []))"

definition getFeatures :: "Game \<Rightarrow> nat \<Rightarrow> ABCFeatureEntryData list \<Rightarrow> string
    \<Rightarrow> error + (nat \<times> ItemSourcePF2e list)" where
  "getFeatures g n entries locationId =
     (if entries \<noteq> []
      then (case packFeats g n entries locationId of
              Inl e \<Rightarrow> Inl e
            | Inr (n1, feats1) \<Rightarrow>
                (case gameFeats g n1 (filter (\<lambda>entry. \<not> isPackEntry entry) entries) of
                   Inl e \<Rightarrow> Inl e
                 | Inr (n2, feats2) \<Rightarrow> Inr (n2, feats1 @ feats2)))
      else Inr (n, []))"

subsection \<open>\<^verbatim>\<open>getClassFeaturesForLevel\<close> and \<^verbatim>\<open>getItemSource\<close>\<close>

definition inWindow :: "int \<Rightarrow> int \<Rightarrow> ABCFeatureEntryData \<Rightarrow> bool" where
  "inWindow minLevel actorLevel entryData =
     (actorLevel \<ge> entry_level entryData \<and> entry_level entryData > minLevel)"

definition getClassFeaturesForLevel :: "Game \<Rightarrow> nat \<Rightarrow> ItemSourcePF2e \<Rightarrow> int \<Rightarrow> int
    \<Rightarrow> error + (nat \<times> ItemSourcePF2e list)" where
  "getClassFeaturesForLevel g n classSource minLevel actorLevel =
     (if minLevel \<ge> actorLevel then Inr (n, [])
      else getFeatures g n (filter (inWindow minLevel actorLevel) (items classSource))
             (ident classSource))"

definition getItemSource :: "Game \<Rightarrow> string \<Rightarrow> string \<Rightarrow> error + ItemSourcePF2e" where
  "getItemSource g packName nm =
     (let sl = sluggify g nm in
      case packs g packName of
        None \<Rightarrow> Inl (PackNotFound packName)
      | Some stored \<Rightarrow>
          (case getDocumentsBySlug stored sl of
             [doc] \<Rightarrow> Inr (toObject doc)
           | _ \<Rightarrow> Inl (CannotFind nm packName)))"

subsection \<open>\<^verbatim>\<open>addFeatures\<close>\<close>

text \<open>\<^verbatim>\<open>itemsToCreate.findIndex((item) => item.data.slug === "assurance")\<close>\<close>

fun findIndex :: "('a \<Rightarrow> bool) \<Rightarrow> 'a list \<Rightarrow> nat option" where
  "findIndex P [] = None"
| "findIndex P (x # xs) = (if P x then Some 0 else map_option Suc (findIndex P xs))"

text \<open>One round of the loop over \<^verbatim>\<open>options.assurance\<close>.\<close>

definition assuranceStep :: "Game \<Rightarrow> nat \<times> ItemSourcePF2e list \<Rightarrow> string
    \<Rightarrow> error + (nat \<times> ItemSourcePF2e list)" where
  "assuranceStep g st skill =
     (case st of (n, itemsToCreate) \<Rightarrow>
        (case findIndex (\<lambda>item. slug item = Some ''assurance'') itemsToCreate of
           None \<Rightarrow> Inr (n, itemsToCreate)
         | Some index \<Rightarrow>
             (let loc = location (itemsToCreate ! index) in
              case getItemSource g ''pf2e.feats-srd'' (''Assurance ('' @ skill @ '')'') of
                Inl e \<Rightarrow> Inl e
              | Inr fetched \<Rightarrow>
                  Inr (Suc n,
                       itemsToCreate[index := fetched\<lparr>ident := randomID g n, location := loc\<rparr>]))))"

fun assuranceLoop :: "Game \<Rightarrow> nat \<times> ItemSourcePF2e list \<Rightarrow> string list
    \<Rightarrow> error + (nat \<times> ItemSourcePF2e list)" where
  "assuranceLoop g st [] = Inr st"
| "assuranceLoop g st (skill # skills) =
     (case assuranceStep g st skill of
        Inl e \<Rightarrow> Inl e
      | Inr st' \<Rightarrow> assuranceLoop g st' skills)"

text \<open>
  The results of the two entry points: the error with the character as the failure leaves
  it, or the count of identifiers drawn, the character and the documents created.
\<close>

type_synonym outcome = "(error \<times> CharacterPF2e) + (nat \<times> CharacterPF2e \<times> ItemSourcePF2e list)"

definition addFeatures :: "Game \<Rightarrow> nat \<Rightarrow> ItemSourcePF2e \<Rightarrow> CharacterPF2e \<Rightarrow> bool
    \<Rightarrow> ABCManagerOptions option \<Rightarrow> outcome" where
  "addFeatures g n itemSource actor createSource options =
     (let itemSource' = (if createSource then itemSource\<lparr>ident := randomID g n\<rparr> else itemSource);
          n0 = (if createSource then Suc n else n);
          itemsToCreate = (if createSource then [itemSource'] else []);
          entriesData = items itemSource'
      in case getFeatures g n0 entriesData (ident itemSource') of
           Inl e \<Rightarrow> Inl (e, actor)
         | Inr (n1, feats) \<Rightarrow>
             (case (case options of
                      None \<Rightarrow> Inr (n1, itemsToCreate @ feats)
                    | Some opts \<Rightarrow>
                        (case assurance opts of
                           None \<Rightarrow> Inr (n1, itemsToCreate @ feats)
                         | Some skills \<Rightarrow> assuranceLoop g (n1, itemsToCreate @ feats) skills)) of
                Inl e \<Rightarrow> Inl (e, actor)
              | Inr (n2, created) \<Rightarrow>
                  Inr (n2, createEmbeddedDocuments actor created, created)))"

subsection \<open>\<^verbatim>\<open>addABCItem\<close>\<close>

text \<open>The comparator of the class branch.\<close>

definition compareFeatures :: "ItemSourcePF2e \<Rightarrow> ItemSourcePF2e \<Rightarrow> int" where
  "compareFeatures featureA featureB =
     (let levelA = level featureA; levelB = level featureB in
      if levelA > levelB then 1
      else if levelA = levelB then (if name featureA > name featureB then 1 else - 1)
      else - 1)"

definition addABCItem :: "Game \<Rightarrow> nat \<Rightarrow> ItemSourcePF2e \<Rightarrow> CharacterPF2e
    \<Rightarrow> ABCManagerOptions option \<Rightarrow> outcome" where
  "addABCItem g n src actor options =
     (if itype src = ''ancestry''
      then addFeatures g n src (deleteAttached actor ''ancestry'') True options
      else if itype src = ''background''
      then addFeatures g n src (deleteAttached actor ''background'') True options
      else if itype src = ''class''
      then (let actor' = deleteAttached actor ''class'';
                src' = src\<lparr>ident := randomID g n,
                           insertedClassFeaturesLevel := Some (actor_level actor')\<rparr>
            in case getClassFeaturesForLevel g (Suc n) src' 0 (actor_level actor') of
                 Inl e \<Rightarrow> Inl (e, actor')
               | Inr (n', itemsToCreate) \<Rightarrow>
                   (let created = sortBy compareFeatures itemsToCreate @ [src'] in
                    Inr (n', createEmbeddedDocuments actor' created, created)))
      else Inl (InvalidABCType, actor))"

subsection \<open>\<^verbatim>\<open>ensureClassFeaturesForLevel\<close>\<close>

text \<open>The features that the upward branch creates, from the resolved window.\<close>

definition classFeaturesToCreate :: "ItemSourcePF2e list \<Rightarrow> ItemSourcePF2e list
    \<Rightarrow> ItemSourcePF2e list" where
  "classFeaturesToCreate current window =
     filter (\<lambda>feature. \<not> list_ex (\<lambda>currentFeature. sourceId currentFeature = sourceId feature) current)
       window"

definition classFeaturesToDelete :: "ItemSourcePF2e list \<Rightarrow> int \<Rightarrow> string list" where
  "classFeaturesToDelete current newLevel =
     map ident (filter (\<lambda>feat. level feat > newLevel) current)"

definition ensureClassFeaturesForLevel :: "Game \<Rightarrow> nat \<Rightarrow> CharacterPF2e \<Rightarrow> int
    \<Rightarrow> (error \<times> CharacterPF2e) + (nat \<times> CharacterPF2e)" where
  "ensureClassFeaturesForLevel g n actor newLevel =
     (case attachedOfType actor ''class'' of
        None \<Rightarrow> Inr (n, actor)
      | Some actorClass \<Rightarrow>
          (let current = classFeatures actor in
           if newLevel > actor_level actor
           then (case getClassFeaturesForLevel g n actorClass (actor_level actor) newLevel of
                   Inl e \<Rightarrow> Inl (e, actor)
                 | Inr (n', window) \<Rightarrow>
                     Inr (n', createEmbeddedDocuments actor (classFeaturesToCreate current window)))
           else if newLevel < actor_level actor
           then Inr (n, deleteEmbeddedDocuments actor (classFeaturesToDelete current newLevel))
           else Inr (n, actor)))"

section \<open>Predicates of the statements\<close>

text \<open>
  An entry resolves to a record that is not a feat: a record of its pack with its id, or
  the world item with its id, has another type than \<^verbatim>\<open>feat\<close>.
\<close>

definition wrongShape :: "Game \<Rightarrow> ABCFeatureEntryData \<Rightarrow> bool" where
  "wrongShape g entry =
     (if isPackEntry entry
      then (case packs g (the (pack entry)) of
              None \<Rightarrow> False
            | Some stored \<Rightarrow> list_ex (\<lambda>s. ident s = entry_id entry \<and> itype s \<noteq> ''feat'') stored)
      else (case game_items g (entry_id entry) of
              None \<Rightarrow> False
            | Some item \<Rightarrow> itype item \<noteq> ''feat''))"

text \<open>
  The order the class branch sorts by: level ascending, then name ascending.
\<close>

definition featureOrder :: "ItemSourcePF2e \<Rightarrow> ItemSourcePF2e \<Rightarrow> bool" where
  "featureOrder a b = (level a < level b \<or> (level a = level b \<and> name a \<le> name b))"

text \<open>
  An entry names a stored record: a record of its pack with its id, or the world item with
  its id. A feature is a clone of a record when it is that record up to its identifier, its
  location and its level, which are the fields that resolution writes.
\<close>

definition resolvesTo :: "Game \<Rightarrow> ABCFeatureEntryData \<Rightarrow> ItemSourcePF2e \<Rightarrow> bool" where
  "resolvesTo g entry s =
     (if isPackEntry entry
      then (case packs g (the (pack entry)) of
              None \<Rightarrow> False
            | Some stored \<Rightarrow> s \<in> set stored \<and> ident s = entry_id entry)
      else game_items g (entry_id entry) = Some s)"

definition cloneOf :: "ItemSourcePF2e \<Rightarrow> ItemSourcePF2e \<Rightarrow> bool" where
  "cloneOf f s = (f\<lparr>ident := ident s, location := location s, level := level s\<rparr> = s)"

text \<open>Projections of the results of the entry points, for the concrete instances.\<close>

definition createdOf :: "outcome \<Rightarrow> ItemSourcePF2e list" where
  "createdOf r = (case r of Inl _ \<Rightarrow> [] | Inr (_, _, created) \<Rightarrow> created)"

definition actorOf :: "(error \<times> CharacterPF2e) + (nat \<times> CharacterPF2e) \<Rightarrow> CharacterPF2e" where
  "actorOf r = (case r of Inl (_, actor) \<Rightarrow> actor | Inr (_, actor) \<Rightarrow> actor)"

section \<open>A small world for the examples\<close>

text \<open>
  Fixtures for the concrete instances below: a feat with the given id, name, slug, level,
  feat type and source id; an entry; a game with six packs and two world items, whose
  \<^verbatim>\<open>randomID\<close> returns a different identifier at every call.
\<close>

definition mkFeat :: "string \<Rightarrow> string \<Rightarrow> string option \<Rightarrow> int \<Rightarrow> string \<Rightarrow> string option
    \<Rightarrow> ItemSourcePF2e" where
  "mkFeat i nm sl lv ft sid =
     \<lparr>ident = i, name = nm, itype = ''feat'', slug = sl, level = lv, location = None,
      featType = ft, sourceId = sid, items = [], insertedClassFeaturesLevel = None\<rparr>"

definition mkEntry :: "string option \<Rightarrow> string \<Rightarrow> int \<Rightarrow> ABCFeatureEntryData" where
  "mkEntry p i lv = \<lparr>pack = p, entry_id = i, entry_level = lv\<rparr>"

definition demoPacks :: "string \<Rightarrow> ItemSourcePF2e list option" where
  "demoPacks p =
     (if p = ''feats-srd'' then
        Some [mkFeat ''s1'' ''Toughness'' (Some ''toughness'') 1 ''general'' None,
              mkFeat ''s2'' ''Fleet'' (Some ''fleet'') 1 ''general'' None,
              mkFeat ''s3'' ''Diehard'' (Some ''diehard'') 1 ''general'' None,
              mkFeat ''s4'' ''Feather Step'' (Some ''feather-step'') 1 ''general'' None,
              mkFeat ''s5'' ''Ride'' (Some ''ride'') 1 ''general'' None]
      else if p = ''feats-extra'' then
        Some [mkFeat ''x1'' ''Canny Acumen'' (Some ''canny-acumen'') 1 ''general'' None,
              mkFeat ''x2'' ''Shield Block'' (Some ''shield-block'') 1 ''general'' None]
      else if p = ''pf2e.classfeatures'' then
        Some [mkFeat ''cz'' ''Zeta'' (Some ''zeta'') 9 ''classfeature'' (Some ''Compendium.cz''),
              mkFeat ''cb'' ''Beta'' (Some ''beta'') 9 ''classfeature'' (Some ''Compendium.cb''),
              mkFeat ''ca'' ''Alpha'' (Some ''alpha'') 9 ''classfeature'' (Some ''Compendium.ca''),
              mkFeat ''c2'' ''Gamma'' (Some ''gamma'') 9 ''classfeature'' (Some ''Compendium.c2''),
              mkFeat ''c5'' ''Delta'' (Some ''delta'') 9 ''classfeature'' (Some ''Compendium.c5''),
              mkFeat ''cn'' ''Nameless'' (Some ''nameless'') 9 ''classfeature'' None]
      else if p = ''pf2e.ancestryfeatures'' then
        Some [mkFeat ''as'' ''Assurance'' (Some ''assurance'') 1 ''skill'' None]
      else if p = ''pf2e.feats-srd'' then
        Some [mkFeat ''st'' ''Assurance (Stealth)'' (Some ''assurance-stealth'') 1 ''skill'' None]
      else if p = ''pf2e.equipment-srd'' then
        Some [(mkFeat ''w2'' ''Longsword'' (Some ''longsword'') 0 [] None)\<lparr>itype := ''weapon''\<rparr>]
      else None)"

definition demoItems :: "string \<Rightarrow> ItemSourcePF2e option" where
  "demoItems i =
     (if i = ''w1'' then Some ((mkFeat ''w1'' ''Dagger'' (Some ''dagger'') 0 [] None)\<lparr>itype := ''weapon''\<rparr>)
      else if i = ''hb'' then Some (mkFeat ''hb'' ''Homebrew'' (Some ''homebrew'') 10 ''classfeature'' None)
      else None)"

definition demoGame :: Game where
  "demoGame = \<lparr>packs = demoPacks, game_items = demoItems,
                randomID = (\<lambda>k. replicate (Suc k) (CHR ''r'')),
                sluggify = (\<lambda>s. if s = ''Assurance (Stealth)'' then ''assurance-stealth'' else s)\<rparr>"

definition demoBatch :: "ABCFeatureEntryData list" where
  "demoBatch =
     [mkEntry (Some ''feats-srd'') ''s1'' 1, mkEntry (Some ''feats-extra'') ''x1'' 1,
      mkEntry (Some ''feats-srd'') ''s2'' 1, mkEntry (Some ''feats-srd'') ''s3'' 1,
      mkEntry (Some ''feats-extra'') ''x2'' 1, mkEntry (Some ''feats-srd'') ''s4'' 1,
      mkEntry (Some ''feats-srd'') ''s5'' 1]"

definition mkClass :: "string \<Rightarrow> string \<Rightarrow> ABCFeatureEntryData list \<Rightarrow> ItemSourcePF2e" where
  "mkClass i nm es =
     \<lparr>ident = i, name = nm, itype = ''class'', slug = None, level = 0, location = None,
      featType = [], sourceId = None, items = es, insertedClassFeaturesLevel = None\<rparr>"

definition demoOrderClass :: ItemSourcePF2e where
  "demoOrderClass = mkClass ''k0'' ''Fighter''
     [mkEntry (Some ''pf2e.classfeatures'') ''cz'' 3,
      mkEntry (Some ''pf2e.classfeatures'') ''cb'' 1,
      mkEntry (Some ''pf2e.classfeatures'') ''ca'' 1]"


definition demoNamelessClass :: ItemSourcePF2e where
  "demoNamelessClass = mkClass ''k2'' ''Bard'' [mkEntry (Some ''pf2e.classfeatures'') ''cn'' 2]"

definition demoHomebrewActor :: CharacterPF2e where
  "demoHomebrewActor =
     \<lparr>actor_level = 1,
      actor_items = [demoNamelessClass, mkFeat ''h1'' ''Custom'' None 1 ''classfeature'' None]\<rparr>"


definition demoNewActor :: CharacterPF2e where
  "demoNewActor = \<lparr>actor_level = 1, actor_items = []\<rparr>"



definition demoLevel3Actor :: CharacterPF2e where
  "demoLevel3Actor = \<lparr>actor_level = 3, actor_items = []\<rparr>"

definition demoZeroClass :: ItemSourcePF2e where
  "demoZeroClass = mkClass ''k3'' ''Rogue''
     [mkEntry (Some ''pf2e.classfeatures'') ''cb'' 0,
      mkEntry (Some ''pf2e.classfeatures'') ''ca'' 1,
      mkEntry None ''hb'' 1]"

definition demoClass :: ItemSourcePF2e where
  "demoClass = mkClass ''k1'' ''Wizard''
     [mkEntry (Some ''pf2e.classfeatures'') ''ca'' 1,
      mkEntry (Some ''pf2e.classfeatures'') ''c2'' 2,
      mkEntry (Some ''pf2e.classfeatures'') ''cz'' 3,
      mkEntry (Some ''pf2e.classfeatures'') ''c5'' 5]"

definition demoLevel1Actor :: CharacterPF2e where
  "demoLevel1Actor =
     \<lparr>actor_level = 1,
      actor_items =
        [(mkFeat ''ca'' ''Alpha'' (Some ''alpha'') 1 ''classfeature'' (Some ''Compendium.ca''))
           \<lparr>ident := ''rr'', location := Some ''r''\<rparr>,
         demoClass\<lparr>ident := ''r'', insertedClassFeaturesLevel := Some 1\<rparr>]\<rparr>"

definition demoSyncedActor :: CharacterPF2e where
  "demoSyncedActor =
     \<lparr>actor_level = 1,
      actor_items = actor_items demoLevel1Actor @
        [(mkFeat ''cz'' ''Zeta'' (Some ''zeta'') 3 ''classfeature'' (Some ''Compendium.cz''))
           \<lparr>ident := ''rrr'', location := Some ''r''\<rparr>,
         (mkFeat ''c2'' ''Gamma'' (Some ''gamma'') 2 ''classfeature'' (Some ''Compendium.c2''))
           \<lparr>ident := ''rrrr'', location := Some ''r''\<rparr>,
         (mkFeat ''c5'' ''Delta'' (Some ''delta'') 5 ''classfeature'' (Some ''Compendium.c5''))
           \<lparr>ident := ''rrrrr'', location := Some ''r''\<rparr>]\<rparr>"





section \<open>Auxiliary facts\<close>

lemmas demo_defs = demoGame_def demoPacks_def demoItems_def mkFeat_def mkEntry_def demoBatch_def
  mkClass_def demoOrderClass_def

lemmas eval_defs = getFeatures_def packFeats_def getFromCompendium_def jsSet_def
  getDocuments_def setLevel_def fromSource_def prepareData_def toObject_def
  isPackEntry_def inWindow_def getClassFeaturesForLevel_def Let_def

lemmas actor_defs = attachedOfType_def classFeatures_def createEmbeddedDocuments_def
  deleteEmbeddedDocuments_def deleteAttached_def classFeaturesToCreate_def
  classFeaturesToDelete_def ensureClassFeaturesForLevel_def


lemma findIndex_None_iff: "findIndex P xs = None \<longleftrightarrow> (\<forall>x \<in> set xs. \<not> P x)"
  by (induction xs) auto


lemma compendiumFeats_eq:
  "compendiumFeats g n loc docs =
     (if \<forall>d \<in> set docs. itype (source d) = ''feat''
      then Inr (n + length docs,
                map (\<lambda>(k, d). (source d)\<lparr>ident := randomID g k, location := Some loc\<rparr>)
                  (zip [n..<n + length docs] docs))
      else Inl InvalidReference)"
proof (induction docs arbitrary: n)
  case Nil
  then show ?case by simp
next
  case (Cons d docs)
  have upt: "[n..<n + length (d # docs)] = n # [Suc n..<Suc n + length docs]"
    by (subst upt_rec) simp
  show ?case
    by (simp only: compendiumFeats.simps Cons.IH upt) (simp add: toObject_def)
qed

lemma gameFeats_eq:
  "gameFeats g n es =
     (if \<forall>e \<in> set es. \<exists>s. game_items g (entry_id e) = Some s \<and> itype s = ''feat''
      then Inr (n + length es,
                map (\<lambda>(k, e). (the (game_items g (entry_id e)))\<lparr>ident := randomID g k\<rparr>)
                  (zip [n..<n + length es] es))
      else Inl InvalidReference)"
proof (induction es arbitrary: n)
  case Nil
  then show ?case by simp
next
  case (Cons e es)
  have upt: "[n..<n + length (e # es)] = n # [Suc n..<Suc n + length es]"
    by (subst upt_rec) simp
  show ?case
    by (simp only: gameFeats.simps Cons.IH upt) (auto split: option.splits)
qed

lemma set_jsSet: "set (jsSet xs) = set xs"
  by (simp add: jsSet_def)

lemma distinct_jsSet: "distinct (jsSet xs)"
  by (simp add: jsSet_def)

lemma length_jsSet: "length (jsSet xs) = card (set xs)"
  using distinct_card[OF distinct_jsSet, of xs] by (simp add: set_jsSet)

lemma find_first:
  "\<exists>e \<in> set es. P e \<Longrightarrow> \<exists>e. find P es = Some e \<and> e \<in> set es \<and> P e"
  by (induction es) auto

lemma set_map_filter: "set (List.map_filter f xs) = {y. \<exists>x \<in> set xs. f x = Some y}"
  by (induction xs) (auto simp: List.map_filter_simps split: option.splits)

lemma fromSource_sel: "source (fromSource s) = s" "data (fromSource s) = s"
  by (simp_all add: fromSource_def)

lemma filter_isPackEntry_pack:
  "e \<in> set es \<Longrightarrow> isPackEntry e \<Longrightarrow> the (pack e) \<in> set (List.map_filter pack (filter isPackEntry es))"
  by (auto simp: set_map_filter isPackEntry_def split: option.splits)

lemma setLevel_fromSource:
  "setLevel es (fromSource s) =
     (case find (\<lambda>e. entry_id e = ident s) es of
        Some entry \<Rightarrow>
          if itype s \<noteq> ''feat'' then Inl TypeError
          else if featType s = ''classfeature''
          then Inr (fromSource (s\<lparr>level := entry_level entry\<rparr>))
          else Inr (fromSource s)
      | None \<Rightarrow> Inr (fromSource s))"
  by (simp add: setLevel_def fromSource_def prepareData_def split: option.splits)


lemma setLevel_found:
  assumes "setLevel es (fromSource s) = Inr d"
    and "find (\<lambda>e. entry_id e = ident s) es = Some entry"
  shows "itype s = ''feat''"
    and "source d = (if featType s = ''classfeature'' then s\<lparr>level := entry_level entry\<rparr> else s)"
  using assms by (auto simp: setLevel_fromSource fromSource_sel split: if_splits)

lemma forFeatures_set:
  "forFeatures es ds = Inr fs \<Longrightarrow>
     (\<forall>f \<in> set fs. \<exists>d \<in> set ds. setLevel es d = Inr f)
     \<and> (\<forall>d \<in> set ds. \<exists>f \<in> set fs. setLevel es d = Inr f)"
proof (induction ds arbitrary: fs)
  case Nil
  then show ?case by simp
next
  case (Cons d ds)
  from Cons.prems obtain f rest where f: "setLevel es d = Inr f"
    and rest: "forFeatures es ds = Inr rest" and fs: "fs = f # rest"
    by (auto split: sum.splits)
  from Cons.IH[OF rest] f show ?case
    unfolding fs by auto
qed

lemma forPacks_trace:
  "\<exists>k. fst (forPacks g es ps feats) =
     map (\<lambda>p. (p, map entry_id (filter (\<lambda>entry. pack entry = Some p) es))) (take k ps)"
proof (induction ps arbitrary: feats)
  case Nil
  then show ?case by simp
next
  case (Cons p ps)
  let ?ids = "map entry_id (filter (\<lambda>entry. pack entry = Some p) es)"
  show ?case
  proof (cases "packs g p")
    case None
    then have "fst (forPacks g es (p # ps) feats) =
        map (\<lambda>p. (p, map entry_id (filter (\<lambda>entry. pack entry = Some p) es))) (take 0 (p # ps))"
      by simp
    then show ?thesis by blast
  next
    case (Some stored)
    show ?thesis
    proof (cases "forFeatures es (getDocuments stored ?ids)")
      case (Inl e)
      with Some have "fst (forPacks g es (p # ps) feats) =
          map (\<lambda>p. (p, map entry_id (filter (\<lambda>entry. pack entry = Some p) es)))
            (take (Suc 0) (p # ps))"
        by simp
      then show ?thesis by blast
    next
      case (Inr features)
      from Cons.IH[of "feats @ features"] obtain k where
        "fst (forPacks g es ps (feats @ features)) =
           map (\<lambda>p. (p, map entry_id (filter (\<lambda>entry. pack entry = Some p) es))) (take k ps)"
        by blast
      with Some Inr have "fst (forPacks g es (p # ps) feats) =
          map (\<lambda>p. (p, map entry_id (filter (\<lambda>entry. pack entry = Some p) es)))
            (take (Suc k) (p # ps))"
        by (simp add: Let_def)
      then show ?thesis by blast
    qed
  qed
qed

lemma forPacks_trace_full:
  "snd (forPacks g es ps feats) = Inr docs \<Longrightarrow>
   fst (forPacks g es ps feats) =
     map (\<lambda>p. (p, map entry_id (filter (\<lambda>entry. pack entry = Some p) es))) ps"
  by (induction ps arbitrary: feats) (auto simp: Let_def split: option.splits sum.splits)

lemma forPacks_docs:
  assumes "snd (forPacks g es ps feats) = Inr docs"
  shows "\<exists>fetched. docs = feats @ fetched
     \<and> (\<forall>d \<in> set fetched. \<exists>p \<in> set ps. \<exists>stored s. packs g p = Some stored \<and> s \<in> set stored
           \<and> ident s \<in> set (map entry_id (filter (\<lambda>entry. pack entry = Some p) es))
           \<and> setLevel es (fromSource s) = Inr d)
     \<and> (\<forall>p \<in> set ps. \<forall>stored s. packs g p = Some stored \<and> s \<in> set stored
           \<and> ident s \<in> set (map entry_id (filter (\<lambda>entry. pack entry = Some p) es))
           \<longrightarrow> (\<exists>d \<in> set fetched. setLevel es (fromSource s) = Inr d))"
  using assms
proof (induction ps arbitrary: feats)
  case Nil
  then show ?case by simp
next
  case (Cons p ps)
  let ?ids = "map entry_id (filter (\<lambda>entry. pack entry = Some p) es)"
  from Cons.prems obtain stored features where
    st: "packs g p = Some stored"
    and ff: "forFeatures es (getDocuments stored ?ids) = Inr features"
    and rest: "snd (forPacks g es ps (feats @ features)) = Inr docs"
    by (auto simp: Let_def split: option.splits sum.splits)
  have f1: "\<forall>f \<in> set features. \<exists>s \<in> set stored. ident s \<in> set ?ids
              \<and> setLevel es (fromSource s) = Inr f"
    using forFeatures_set[OF ff] by (fastforce simp: getDocuments_def)
  have f2: "\<forall>s \<in> set stored. ident s \<in> set ?ids \<longrightarrow>
              (\<exists>f \<in> set features. setLevel es (fromSource s) = Inr f)"
    using forFeatures_set[OF ff] by (fastforce simp: getDocuments_def)
  from Cons.IH[OF rest] obtain fetched where
    d: "docs = (feats @ features) @ fetched"
    and s1: "\<forall>d \<in> set fetched. \<exists>p \<in> set ps. \<exists>stored s. packs g p = Some stored \<and> s \<in> set stored
           \<and> ident s \<in> set (map entry_id (filter (\<lambda>entry. pack entry = Some p) es))
           \<and> setLevel es (fromSource s) = Inr d"
    and s2: "\<forall>p \<in> set ps. \<forall>stored s. packs g p = Some stored \<and> s \<in> set stored
           \<and> ident s \<in> set (map entry_id (filter (\<lambda>entry. pack entry = Some p) es))
           \<longrightarrow> (\<exists>d \<in> set fetched. setLevel es (fromSource s) = Inr d)"
    by blast
  have a: "docs = feats @ (features @ fetched)" using d by simp
  have b: "\<forall>d \<in> set (features @ fetched). \<exists>q \<in> set (p # ps). \<exists>stored s.
           packs g q = Some stored \<and> s \<in> set stored
           \<and> ident s \<in> set (map entry_id (filter (\<lambda>entry. pack entry = Some q) es))
           \<and> setLevel es (fromSource s) = Inr d"
  proof
    fix d assume "d \<in> set (features @ fetched)"
    then consider "d \<in> set features" | "d \<in> set fetched" by auto
    then show "\<exists>q \<in> set (p # ps). \<exists>stored s.
           packs g q = Some stored \<and> s \<in> set stored
           \<and> ident s \<in> set (map entry_id (filter (\<lambda>entry. pack entry = Some q) es))
           \<and> setLevel es (fromSource s) = Inr d"
    proof cases
      case 1
      with f1 st show ?thesis by (metis list.set_intros(1))
    next
      case 2
      with s1 show ?thesis by (metis list.set_intros(2))
    qed
  qed
  have c: "\<forall>q \<in> set (p # ps). \<forall>stored s. packs g q = Some stored \<and> s \<in> set stored
           \<and> ident s \<in> set (map entry_id (filter (\<lambda>entry. pack entry = Some q) es))
           \<longrightarrow> (\<exists>d \<in> set (features @ fetched). setLevel es (fromSource s) = Inr d)"
  proof (intro ballI allI impI)
    fix q stored' s
    assume q: "q \<in> set (p # ps)"
      and h: "packs g q = Some stored' \<and> s \<in> set stored'
           \<and> ident s \<in> set (map entry_id (filter (\<lambda>entry. pack entry = Some q) es))"
    show "\<exists>d \<in> set (features @ fetched). setLevel es (fromSource s) = Inr d"
    proof (cases "q = p")
      case True
      with h st f2 show ?thesis by auto
    next
      case False
      with q have "q \<in> set ps" by simp
      with s2 h show ?thesis by (metis Un_iff set_append)
    qed
  qed
  from a b c show ?case by blast
qed

lemma getFromCompendium_sound:
  assumes "snd (getFromCompendium g es) = Inr docs" and "d \<in> set docs"
  shows "\<exists>s p stored e. setLevel es (fromSource s) = Inr d
           \<and> p \<in> set (List.map_filter pack es) \<and> packs g p = Some stored \<and> s \<in> set stored
           \<and> e \<in> set es \<and> pack e = Some p \<and> entry_id e = ident s"
proof -
  from forPacks_docs[of g es "jsSet (List.map_filter pack es)" "[]" docs] assms(1)
  obtain fetched where "docs = fetched"
    and s1: "\<forall>d \<in> set fetched. \<exists>p \<in> set (jsSet (List.map_filter pack es)). \<exists>stored s.
           packs g p = Some stored \<and> s \<in> set stored
           \<and> ident s \<in> set (map entry_id (filter (\<lambda>entry. pack entry = Some p) es))
           \<and> setLevel es (fromSource s) = Inr d"
    by (auto simp: getFromCompendium_def)
  with assms(2) obtain p stored s where
    h: "p \<in> set (List.map_filter pack es)" "packs g p = Some stored" "s \<in> set stored"
    "setLevel es (fromSource s) = Inr d"
    and mem: "ident s \<in> set (map entry_id (filter (\<lambda>entry. pack entry = Some p) es))"
    by (auto simp: set_jsSet)
  from mem obtain e where "e \<in> set es" "pack e = Some p" "entry_id e = ident s"
    by auto
  with h show ?thesis by blast
qed

lemma getFromCompendium_complete:
  assumes "snd (getFromCompendium g es) = Inr docs"
    and "packs g p = Some stored" and "s \<in> set stored"
    and "e \<in> set es" and "pack e = Some p" and "entry_id e = ident s"
  shows "\<exists>d \<in> set docs. setLevel es (fromSource s) = Inr d"
proof -
  from forPacks_docs[of g es "jsSet (List.map_filter pack es)" "[]" docs] assms(1)
  obtain fetched where d: "docs = fetched"
    and s2: "\<forall>p \<in> set (jsSet (List.map_filter pack es)). \<forall>stored s.
           packs g p = Some stored \<and> s \<in> set stored
           \<and> ident s \<in> set (map entry_id (filter (\<lambda>entry. pack entry = Some p) es))
           \<longrightarrow> (\<exists>d \<in> set fetched. setLevel es (fromSource s) = Inr d)"
    by (auto simp: getFromCompendium_def)
  have p: "p \<in> set (jsSet (List.map_filter pack es))"
    using assms(4,5) by (auto simp: set_jsSet set_map_filter)
  have "ident s \<in> set (map entry_id (filter (\<lambda>entry. pack entry = Some p) es))"
    using assms(4,5,6) by force
  with s2 p assms(2,3) show ?thesis unfolding d by blast
qed

lemma classFeaturesToCreate_mem:
  "feature \<in> set (classFeaturesToCreate current window) \<longleftrightarrow>
     feature \<in> set window \<and> \<not> (\<exists>c \<in> set current. sourceId c = sourceId feature)"
  by (auto simp: classFeaturesToCreate_def list_ex_iff)






lemma compareFeatures_pos: "compareFeatures a b > 0 \<longleftrightarrow> \<not> featureOrder a b"
  by (auto simp: compareFeatures_def featureOrder_def Let_def)

lemma featureOrder_total: "\<not> featureOrder a b \<Longrightarrow> featureOrder b a"
  by (auto simp: featureOrder_def)

lemma featureOrder_trans: "featureOrder a b \<Longrightarrow> featureOrder b c \<Longrightarrow> featureOrder a c"
  by (auto simp: featureOrder_def)

lemma set_insertBy: "set (insertBy cmp x xs) = insert x (set xs)"
  by (induction xs) auto

lemma mset_insertBy: "mset (insertBy cmp x xs) = add_mset x (mset xs)"
  by (induction xs) auto

lemma mset_sortBy: "mset (sortBy cmp xs) = mset xs"
  by (induction xs) (simp_all add: sortBy_def mset_insertBy)

lemma sorted_insertBy:
  "sorted_wrt featureOrder xs \<Longrightarrow> sorted_wrt featureOrder (insertBy compareFeatures x xs)"
proof (induction xs)
  case Nil
  then show ?case by simp
next
  case (Cons y ys)
  show ?case
  proof (cases "compareFeatures x y > 0")
    case True
    then have yx: "featureOrder y x"
      by (simp add: compareFeatures_pos featureOrder_total)
    from Cons.prems have "sorted_wrt featureOrder ys" "\<forall>z \<in> set ys. featureOrder y z"
      by auto
    with Cons.IH yx True show ?thesis
      by (auto simp: set_insertBy)
  next
    case False
    then have xy: "featureOrder x y"
      by (simp add: compareFeatures_pos)
    from Cons.prems have "\<forall>z \<in> set ys. featureOrder y z" by auto
    with xy have "\<forall>z \<in> set ys. featureOrder x z"
      by (blast intro: featureOrder_trans)
    with Cons.prems xy False show ?thesis by auto
  qed
qed

lemma sorted_sortBy: "sorted_wrt featureOrder (sortBy compareFeatures xs)"
proof (induction xs)
  case Nil
  then show ?case by (simp add: sortBy_def)
next
  case (Cons x xs)
  then show ?case using sorted_insertBy[of "sortBy compareFeatures xs" x]
    by (simp add: sortBy_def)
qed

lemma actor_level_deleteAttached: "actor_level (deleteAttached actor t) = actor_level actor"
  by (simp add: deleteAttached_def deleteEmbeddedDocuments_def split: option.splits)

lemma addABCItem_class:
  assumes "itype src = ''class''"
  shows "addABCItem g n src actor options =
     (let actor' = deleteAttached actor ''class'';
          src' = src\<lparr>ident := randomID g n,
                     insertedClassFeaturesLevel := Some (actor_level actor)\<rparr>
      in case getClassFeaturesForLevel g (Suc n) src' 0 (actor_level actor) of
           Inl e \<Rightarrow> Inl (e, actor')
         | Inr (n', itemsToCreate) \<Rightarrow>
             Inr (n', createEmbeddedDocuments actor' (sortBy compareFeatures itemsToCreate @ [src']),
                  sortBy compareFeatures itemsToCreate @ [src']))"
  using assms by (simp add: addABCItem_def Let_def actor_level_deleteAttached split: sum.splits)

lemma class_features_sorted_aux:
  assumes "itype src = ''class''"
    and "addABCItem g n src actor options = Inr (n', actor', created)"
  shows "\<exists>resolved.
           getClassFeaturesForLevel g (Suc n)
             (src\<lparr>ident := randomID g n, insertedClassFeaturesLevel := Some (actor_level actor)\<rparr>)
             0 (actor_level actor) = Inr (n', resolved)
         \<and> created = sortBy compareFeatures resolved
             @ [src\<lparr>ident := randomID g n, insertedClassFeaturesLevel := Some (actor_level actor)\<rparr>]
         \<and> actor_items actor' = actor_items (deleteAttached actor ''class'') @ created"
  using assms
  by (auto simp: addABCItem_class Let_def createEmbeddedDocuments_def split: sum.splits)

lemma getClassFeaturesForLevel_eq:
  "getClassFeaturesForLevel g n cls lo hi
     = getFeatures g n (filter (inWindow lo hi) (items cls)) (ident cls)"
proof (cases "lo \<ge> hi")
  case True
  then have "filter (inWindow lo hi) (items cls) = []"
    by (auto simp: filter_empty_conv inWindow_def)
  with True show ?thesis
    by (simp add: getClassFeaturesForLevel_def getFeatures_def)
next
  case False
  then show ?thesis by (simp add: getClassFeaturesForLevel_def)
qed

lemma getFeatures_split:
  assumes "getFeatures g n es loc = Inr (n', fs)"
  shows "\<exists>n1 packed local. packFeats g n es loc = Inr (n1, packed)
           \<and> gameFeats g n1 (filter (\<lambda>entry. \<not> isPackEntry entry) es) = Inr (n', local)
           \<and> fs = packed @ local"
proof (cases "es = []")
  case True
  with assms show ?thesis by (simp add: getFeatures_def packFeats_def)
next
  case False
  with assms show ?thesis
    by (auto simp: getFeatures_def split: sum.splits)
qed

lemma in_zip_upt:
  assumes "d \<in> set docs"
  shows "\<exists>k. (k, d) \<in> set (zip [n..<n + length docs] docs)"
proof -
  from assms obtain i where i: "i < length docs" "docs ! i = d"
    by (auto simp: in_set_conv_nth)
  then have "(n + i, d) \<in> set (zip [n..<n + length docs] docs)"
    by (auto simp: set_zip intro!: exI[of _ i])
  then show ?thesis by blast
qed

lemma packFeats_docs:
  assumes "packFeats g n es loc = Inr (n1, packed)" and "filter isPackEntry es \<noteq> []"
  shows "\<exists>docs. snd (getFromCompendium g (filter isPackEntry es)) = Inr docs
           \<and> packed = map (\<lambda>(k, d). (source d)\<lparr>ident := randomID g k, location := Some loc\<rparr>)
                        (zip [n..<n + length docs] docs)"
  using assms
  by (auto simp: packFeats_def Let_def compendiumFeats_eq split: sum.splits if_splits)

lemma packFeats_sound:
  assumes ok: "packFeats g n es loc = Inr (n1, packed)" and f: "f \<in> set packed"
  shows "\<exists>e \<in> set es. \<exists>entry \<in> set es. \<exists>s.
           isPackEntry e \<and> isPackEntry entry \<and> resolvesTo g e s \<and> cloneOf f s
           \<and> featType f = featType s
           \<and> (featType s = ''classfeature'' \<longrightarrow> level f = entry_level entry)"
proof -
  let ?pes = "filter isPackEntry es"
  have ne: "?pes \<noteq> []"
    using ok f by (auto simp: packFeats_def Let_def split: if_splits)
  from packFeats_docs[OF ok ne] obtain docs where
    docs: "snd (getFromCompendium g ?pes) = Inr docs"
    and packed: "packed = map (\<lambda>(k, d). (source d)\<lparr>ident := randomID g k, location := Some loc\<rparr>)
                        (zip [n..<n + length docs] docs)"
    by blast
  from f packed obtain k d where d: "d \<in> set docs"
    and fd: "f = (source d)\<lparr>ident := randomID g k, location := Some loc\<rparr>"
    by (auto dest: set_zip_rightD)
  from getFromCompendium_sound[OF docs d] obtain s p stored e where
    s: "setLevel ?pes (fromSource s) = Inr d" "packs g p = Some stored" "s \<in> set stored"
      "e \<in> set ?pes" "pack e = Some p" "entry_id e = ident s"
    by blast
  from find_first[of ?pes "\<lambda>e. entry_id e = ident s"] s(4,6)
  obtain entry where entry: "find (\<lambda>e. entry_id e = ident s) ?pes = Some entry" "entry \<in> set ?pes"
    by auto
  have src: "source d = (if featType s = ''classfeature'' then s\<lparr>level := entry_level entry\<rparr> else s)"
    by (rule setLevel_found(2)[OF s(1) entry(1)])
  have e: "e \<in> set es" "isPackEntry e" using s(4) by auto
  have en: "entry \<in> set es" "isPackEntry entry" using entry(2) by auto
  have res: "resolvesTo g e s"
    using e(2) s(2,3,5,6) by (simp add: resolvesTo_def)
  have clone: "cloneOf f s"
    unfolding fd src by (simp add: cloneOf_def)
  have ft: "featType f = featType s"
    unfolding fd src by simp
  have lv: "featType s = ''classfeature'' \<longrightarrow> level f = entry_level entry"
    unfolding fd src by simp
  from e en res clone ft lv show ?thesis by blast
qed

lemma packFeats_complete:
  assumes ok: "packFeats g n es loc = Inr (n1, packed)"
    and e: "e \<in> set es" "isPackEntry e" "resolvesTo g e s"
  shows "\<exists>f \<in> set packed. cloneOf f s"
proof -
  let ?pes = "filter isPackEntry es"
  have ne: "?pes \<noteq> []" using e by (auto simp: filter_empty_conv)
  from packFeats_docs[OF ok ne] obtain docs where
    docs: "snd (getFromCompendium g ?pes) = Inr docs"
    and packed: "packed = map (\<lambda>(k, d). (source d)\<lparr>ident := randomID g k, location := Some loc\<rparr>)
                        (zip [n..<n + length docs] docs)"
    by blast
  from e obtain p stored where p: "pack e = Some p" "packs g p = Some stored" "s \<in> set stored"
    "ident s = entry_id e"
    by (auto simp: resolvesTo_def isPackEntry_def split: option.splits)
  have epes: "e \<in> set ?pes" using e by simp
  from getFromCompendium_complete[OF docs p(2,3) epes p(1)] p(4)
  obtain d where d: "d \<in> set docs" and sl: "setLevel ?pes (fromSource s) = Inr d"
    by auto
  from in_zip_upt[OF d, of n] obtain k where
    k: "(k, d) \<in> set (zip [n..<n + length docs] docs)"
    by blast
  let ?f = "(source d)\<lparr>ident := randomID g k, location := Some loc\<rparr>"
  have "?f \<in> set packed"
    unfolding packed using k by force
  moreover have "cloneOf ?f s"
    using sl
    by (auto simp: cloneOf_def setLevel_fromSource fromSource_sel split: option.splits if_splits)
  ultimately show ?thesis by blast
qed

lemma gameFeats_sound:
  assumes ok: "gameFeats g n es = Inr (n', local)" and f: "f \<in> set local"
  shows "\<exists>e \<in> set es. \<exists>s. game_items g (entry_id e) = Some s \<and> f = s\<lparr>ident := ident f\<rparr>"
proof -
  from ok have all: "\<forall>e \<in> set es. \<exists>s. game_items g (entry_id e) = Some s \<and> itype s = ''feat''"
    and local: "local = map (\<lambda>(k, e). (the (game_items g (entry_id e)))\<lparr>ident := randomID g k\<rparr>)
                  (zip [n..<n + length es] es)"
    by (auto simp: gameFeats_eq split: if_splits)
  from f local obtain k e where e: "e \<in> set es"
    and fe: "f = (the (game_items g (entry_id e)))\<lparr>ident := randomID g k\<rparr>"
    by (auto dest: set_zip_rightD)
  from all e obtain s where s: "game_items g (entry_id e) = Some s" by blast
  have "f = s\<lparr>ident := ident f\<rparr>"
    unfolding fe s by simp
  with e s show ?thesis by blast
qed

lemma gameFeats_complete:
  assumes ok: "gameFeats g n es = Inr (n', local)" and e: "e \<in> set es"
    and s: "game_items g (entry_id e) = Some s"
  shows "\<exists>f \<in> set local. cloneOf f s"
proof -
  from ok have local: "local = map (\<lambda>(k, e). (the (game_items g (entry_id e)))\<lparr>ident := randomID g k\<rparr>)
                  (zip [n..<n + length es] es)"
    by (auto simp: gameFeats_eq split: if_splits)
  from in_zip_upt[OF e, of n] obtain k where k: "(k, e) \<in> set (zip [n..<n + length es] es)"
    by blast
  let ?f = "(the (game_items g (entry_id e)))\<lparr>ident := randomID g k\<rparr>"
  have "?f \<in> set local" unfolding local using k by force
  moreover have "cloneOf ?f s" by (simp add: cloneOf_def s)
  ultimately show ?thesis by blast
qed

lemma cloneOf_game: "f = s\<lparr>ident := i\<rparr> \<Longrightarrow> cloneOf f s"
  by (simp add: cloneOf_def)







lemma find_append_Some: "find P xs = Some x \<Longrightarrow> find P (xs @ ys) = Some x"
  by (induction xs) auto

lemma attachedOfType_create:
  "attachedOfType actor t = Some c \<Longrightarrow> attachedOfType (createEmbeddedDocuments actor xs) t = Some c"
  by (simp add: attachedOfType_def createEmbeddedDocuments_def find_append_Some)

lemma classFeatures_create:
  "classFeatures (createEmbeddedDocuments actor xs)
     = classFeatures actor
       @ filter (\<lambda>feat. featType feat = ''classfeature'') (filter (\<lambda>i. itype i = ''feat'') xs)"
  by (simp add: classFeatures_def createEmbeddedDocuments_def)







lemma filter_ids_append:
  assumes d: "distinct (map ident (xs @ ys))" and sub: "set C \<subseteq> set ys"
  shows "filter (\<lambda>i. ident i \<notin> set (map ident C)) (xs @ ys) = xs @ filter (\<lambda>i. i \<notin> set C) ys"
proof -
  from d have dx: "\<forall>x \<in> set xs. ident x \<notin> ident ` set ys"
    and inj: "inj_on ident (set ys)"
    by (auto simp: distinct_map)
  have "filter (\<lambda>i. ident i \<notin> set (map ident C)) xs = xs"
    using dx sub by (auto simp: filter_id_conv)
  moreover have "filter (\<lambda>i. ident i \<notin> set (map ident C)) ys = filter (\<lambda>i. i \<notin> set C) ys"
  proof (rule filter_cong[OF refl])
    fix i assume i: "i \<in> set ys"
    show "(ident i \<notin> set (map ident C)) = (i \<notin> set C)"
      using inj i sub by (auto dest: inj_onD)
  qed
  ultimately show ?thesis by simp
qed

lemma packFeats_only:
  assumes "\<forall>e \<in> set es. isPackEntry e" and "getFeatures g n es loc = Inr (n', fs)"
  shows "packFeats g n es loc = Inr (n', fs)"
proof -
  have none: "filter (\<lambda>entry. \<not> isPackEntry entry) es = []"
    using assms(1) by (auto simp: filter_empty_conv)
  from getFeatures_split[OF assms(2)] show ?thesis
    unfolding none by auto
qed

lemmas sync_demo_defs = demoClass_def demoLevel1Actor_def demoSyncedActor_def demoNewActor_def

lemma demo_attach_level1:
  "addABCItem demoGame 0 demoClass demoNewActor None
     = Inr (Suc (Suc 0), demoLevel1Actor, actor_items demoLevel1Actor)"
  by (simp add: sync_demo_defs demo_defs eval_defs actor_defs addABCItem_def sortBy_def
      compareFeatures_def)

lemma demo_sync_up:
  "ensureClassFeaturesForLevel demoGame (Suc (Suc 0)) demoLevel1Actor 5
     = Inr (Suc (Suc (Suc (Suc (Suc 0)))), demoSyncedActor)"
  by (simp add: sync_demo_defs demo_defs eval_defs actor_defs)

lemma sync_down_exact:
  assumes cls: "attachedOfType b ''class'' = Some actorClass"
    and lt: "low < actor_level b"
    and uniq: "distinct (map ident (actor_items b))"
  shows "ensureClassFeaturesForLevel g n b low
           = Inr (n, deleteEmbeddedDocuments b (classFeaturesToDelete (classFeatures b) low))
       \<and> classFeatures (deleteEmbeddedDocuments b (classFeaturesToDelete (classFeatures b) low))
           = filter (\<lambda>f. level f \<le> low) (classFeatures b)"
proof -
  let ?D = "filter (\<lambda>feat. low < level feat) (classFeatures b)"
  have run: "ensureClassFeaturesForLevel g n b low
           = Inr (n, deleteEmbeddedDocuments b (classFeaturesToDelete (classFeatures b) low))"
    using cls lt by (simp add: ensureClassFeaturesForLevel_def Let_def)
  have sub: "set ?D \<subseteq> set (actor_items b)"
    by (auto simp: classFeatures_def)
  have uniq': "distinct (map ident ([] @ actor_items b))"
    using uniq by simp
  from filter_ids_append[OF uniq' sub]
  have kept: "filter (\<lambda>i. ident i \<notin> set (map ident ?D)) (actor_items b)
                = filter (\<lambda>i. i \<notin> set ?D) (actor_items b)"
    by simp
  have "classFeatures (deleteEmbeddedDocuments b (classFeaturesToDelete (classFeatures b) low))
          = filter (\<lambda>feat. featType feat = ''classfeature'')
              (filter (\<lambda>i. itype i = ''feat'') (filter (\<lambda>i. i \<notin> set ?D) (actor_items b)))"
    using kept by (simp add: classFeatures_def deleteEmbeddedDocuments_def classFeaturesToDelete_def)
  also have "\<dots> = filter (\<lambda>f. level f \<le> low) (classFeatures b)"
    unfolding classFeatures_def filter_filter
    by (rule filter_cong) (auto simp: classFeatures_def)
  finally show ?thesis using run by simp
qed

section \<open>The claims\<close>

text \<open>
  C10. For a skill of \<^verbatim>\<open>options.assurance\<close>: if, when the skill is processed, no item of the
  batch under construction has the slug \<^verbatim>\<open>assurance\<close>, the round does nothing. No error is
  raised, nothing is appended, no identifier is drawn and the batch is the same, and the
  loop goes on to the next skill with it.
\<close>

theorem assurance_skipped_when_absent:
  assumes "\<forall>item \<in> set itemsToCreate. slug item \<noteq> Some ''assurance''"
  shows "assuranceStep g (n, itemsToCreate) skill = Inr (n, itemsToCreate)
       \<and> assuranceLoop g (n, itemsToCreate) (skill # skills)
           = assuranceLoop g (n, itemsToCreate) skills"
proof -
  have "findIndex (\<lambda>item. slug item = Some ''assurance'') itemsToCreate = None"
    using assms by (simp add: findIndex_None_iff)
  then have "assuranceStep g (n, itemsToCreate) skill = Inr (n, itemsToCreate)"
    by (simp add: assuranceStep_def)
  then show ?thesis by simp
qed

theorem assurance_skipped_when_absent_witness:
  "slug (mkFeat ''s1'' ''Toughness'' (Some ''toughness'') 1 ''general'' None) \<noteq> Some ''assurance''
   \<and> assuranceStep demoGame (3, [mkFeat ''s1'' ''Toughness'' (Some ''toughness'') 1 ''general'' None])
        ''Stealth''
     = Inr (3, [mkFeat ''s1'' ''Toughness'' (Some ''toughness'') 1 ''general'' None])"
  using assurance_skipped_when_absent
    [of "[mkFeat ''s1'' ''Toughness'' (Some ''toughness'') 1 ''general'' None]" demoGame 3 "''Stealth''" "[]"]
  by (simp add: mkFeat_def)

text \<open>
  C6. \<^verbatim>\<open>getFromCompendium\<close> issues one batched query by id per pack, not one per entry. The
  queries go to different packs, all of them packs that the entries name; each query asks
  for all the ids of the entries of its pack; there are at most as many queries as there
  are different pack names; and when the fetch completes, the packs queried are exactly
  the different pack names, each once, in the order of their first mention.
\<close>

theorem one_query_per_pack:
  "distinct (map fst (fst (getFromCompendium g entries)))
   \<and> set (map fst (fst (getFromCompendium g entries))) \<subseteq> set (List.map_filter pack entries)
   \<and> length (fst (getFromCompendium g entries)) \<le> card (set (List.map_filter pack entries))
   \<and> (\<forall>q \<in> set (fst (getFromCompendium g entries)).
         snd q = map entry_id (filter (\<lambda>entry. pack entry = Some (fst q)) entries))
   \<and> ((\<exists>docs. snd (getFromCompendium g entries) = Inr docs) \<longrightarrow>
         map fst (fst (getFromCompendium g entries)) = jsSet (List.map_filter pack entries)
         \<and> length (fst (getFromCompendium g entries)) = card (set (List.map_filter pack entries)))"
proof -
  let ?referenced = "List.map_filter pack entries"
  let ?ps = "jsSet ?referenced"
  let ?qs = "fst (getFromCompendium g entries)"
  let ?q = "\<lambda>p. (p, map entry_id (filter (\<lambda>entry. pack entry = Some p) entries))"
  from forPacks_trace[of g entries ?ps "[]"] obtain k where
    qs: "?qs = map ?q (take k ?ps)"
    by (auto simp: getFromCompendium_def)
  have fsts: "map fst ?qs = take k ?ps"
    by (simp add: qs comp_def)
  have d: "distinct (map fst ?qs)"
    unfolding fsts by (rule distinct_take) (rule distinct_jsSet)
  have sub: "set (map fst ?qs) \<subseteq> set ?referenced"
    unfolding fsts using set_take_subset[of k ?ps] by (simp add: set_jsSet)
  have len: "length ?qs \<le> card (set ?referenced)"
  proof -
    have "length ?qs = length (take k ?ps)" by (simp add: qs)
    also have "\<dots> \<le> length ?ps" by simp
    finally show ?thesis by (simp add: length_jsSet)
  qed
  have ids: "\<forall>q \<in> set ?qs. snd q = map entry_id (filter (\<lambda>entry. pack entry = Some (fst q)) entries)"
    unfolding qs by auto
  have full: "(\<exists>docs. snd (getFromCompendium g entries) = Inr docs) \<longrightarrow>
            map fst ?qs = jsSet ?referenced \<and> length ?qs = card (set ?referenced)"
  proof
    assume "\<exists>docs. snd (getFromCompendium g entries) = Inr docs"
    then obtain docs where "snd (forPacks g entries ?ps []) = Inr docs"
      by (auto simp: getFromCompendium_def)
    from forPacks_trace_full[OF this] have all: "?qs = map ?q ?ps"
      by (simp add: getFromCompendium_def)
    have "map fst ?qs = ?ps"
      by (simp add: all comp_def)
    moreover have "length ?qs = length ?ps"
      by (simp add: all)
    ultimately show "map fst ?qs = jsSet ?referenced \<and> length ?qs = card (set ?referenced)"
      by (simp add: length_jsSet)
  qed
  from d sub len ids full show ?thesis by blast
qed

theorem one_query_per_pack_witness:
  "(\<exists>docs. snd (getFromCompendium demoGame demoBatch) = Inr docs)
   \<and> length demoBatch = 7
   \<and> fst (getFromCompendium demoGame demoBatch) =
       [(''feats-srd'', [''s1'', ''s2'', ''s3'', ''s4'', ''s5'']), (''feats-extra'', [''x1'', ''x2''])]"
  using one_query_per_pack[of demoGame demoBatch]
  by (simp add: getFromCompendium_def jsSet_def List.map_filter_simps demo_defs getDocuments_def
      setLevel_def fromSource_def prepareData_def)



text \<open>
  C8. An entry that resolves to a record of the wrong shape should end the call with
  \<open>InvalidReference\<close>. For an entry that names a world item it does. For an entry that names
  a record of a pack it does not: \<^verbatim>\<open>getFromCompendium\<close> reads \<^verbatim>\<open>feature.featType.value\<close> of
  every document it fetched, before \<^verbatim>\<open>getFeatures\<close> checks \<^verbatim>\<open>instanceof FeatPF2e\<close>, so a
  weapon in a pack ends the call with a \<open>TypeError\<close>. In both cases the call returns no
  features.
\<close>

theorem wrong_shape_pack_type_error:
  "wrongShape demoGame (mkEntry (Some ''pf2e.equipment-srd'') ''w2'' 1)
   \<and> getFeatures demoGame 0 [mkEntry (Some ''pf2e.equipment-srd'') ''w2'' 1] ''loc'' = Inl TypeError
   \<and> getFeatures demoGame 0 [mkEntry (Some ''pf2e.equipment-srd'') ''w2'' 1] ''loc''
       \<noteq> Inl InvalidReference
   \<and> wrongShape demoGame (mkEntry None ''w1'' 1)
   \<and> getFeatures demoGame 0 [mkEntry None ''w1'' 1] ''loc'' = Inl InvalidReference"
  by (simp add: wrongShape_def demo_defs eval_defs)

text \<open>
  C9. In the upward branch the filter compares \<^verbatim>\<open>sourceId\<close> with equality, the absent value
  included: a feature of the window is left out exactly when an attached class feature has
  the same \<^verbatim>\<open>sourceId\<close>, so a feature without one is left out exactly when some attached class
  feature has none either.
\<close>

theorem absent_sourceId_suppresses:
  assumes "attachedOfType actor ''class'' = Some actorClass"
    and "actor_level actor < newLevel"
    and "getClassFeaturesForLevel g n actorClass (actor_level actor) newLevel = Inr (n', window)"
  shows "ensureClassFeaturesForLevel g n actor newLevel
           = Inr (n', createEmbeddedDocuments actor
                        (classFeaturesToCreate (classFeatures actor) window))
       \<and> (\<forall>feature \<in> set window.
             (feature \<notin> set (classFeaturesToCreate (classFeatures actor) window))
               = (\<exists>c \<in> set (classFeatures actor). sourceId c = sourceId feature))
       \<and> (\<forall>feature \<in> set window. sourceId feature = None \<longrightarrow>
             (feature \<notin> set (classFeaturesToCreate (classFeatures actor) window))
               = (\<exists>c \<in> set (classFeatures actor). sourceId c = None))"
proof -
  have run: "ensureClassFeaturesForLevel g n actor newLevel
           = Inr (n', createEmbeddedDocuments actor
                        (classFeaturesToCreate (classFeatures actor) window))"
    using assms by (simp add: ensureClassFeaturesForLevel_def Let_def)
  have flt: "\<forall>feature \<in> set window.
             (feature \<notin> set (classFeaturesToCreate (classFeatures actor) window))
               = (\<exists>c \<in> set (classFeatures actor). sourceId c = sourceId feature)"
    by (simp add: classFeaturesToCreate_mem)
  have absent: "\<forall>feature \<in> set window. sourceId feature = None \<longrightarrow>
             (feature \<notin> set (classFeaturesToCreate (classFeatures actor) window))
               = (\<exists>c \<in> set (classFeatures actor). sourceId c = None)"
    by (simp add: classFeaturesToCreate_mem)
  from run flt absent show ?thesis by blast
qed

theorem absent_sourceId_suppresses_witness:
  "getClassFeaturesForLevel demoGame 0 demoNamelessClass 1 2
     = Inr (1, [(mkFeat ''cn'' ''Nameless'' (Some ''nameless'') 2 ''classfeature'' None)
                  \<lparr>ident := ''r'', location := Some ''k2''\<rparr>])
   \<and> classFeatures demoHomebrewActor = [mkFeat ''h1'' ''Custom'' None 1 ''classfeature'' None]
   \<and> ensureClassFeaturesForLevel demoGame 0 demoHomebrewActor 2 = Inr (1, demoHomebrewActor)"
  using absent_sourceId_suppresses[of demoHomebrewActor demoNamelessClass 2 demoGame 0 1
      "[(mkFeat ''cn'' ''Nameless'' (Some ''nameless'') 2 ''classfeature'' None)
                  \<lparr>ident := ''r'', location := Some ''k2''\<rparr>]"]
  by (simp add: demoNamelessClass_def demoHomebrewActor_def demo_defs eval_defs actor_defs)


text \<open>
  C2 (amended). The class branch of \<^verbatim>\<open>addABCItem\<close> creates the resolved features sorted by level
  ascending, features of the same level by name ascending, followed by the class itself:
  the sorted list is a permutation of the resolved one. Entries with the levels 3, 1, 1
  and the names Zeta, Beta, Alpha are created in the order Alpha (1), Beta (1), Zeta (3).
\<close>

theorem class_features_sorted:
  assumes "itype src = ''class''"
    and "addABCItem g n src actor options = Inr (n', actor', created)"
  shows "\<exists>resolved.
           getClassFeaturesForLevel g (Suc n)
             (src\<lparr>ident := randomID g n, insertedClassFeaturesLevel := Some (actor_level actor)\<rparr>)
             0 (actor_level actor) = Inr (n', resolved)
         \<and> created = sortBy compareFeatures resolved
             @ [src\<lparr>ident := randomID g n, insertedClassFeaturesLevel := Some (actor_level actor)\<rparr>]
         \<and> mset (sortBy compareFeatures resolved) = mset resolved
         \<and> sorted_wrt featureOrder (sortBy compareFeatures resolved)
         \<and> sorted_wrt featureOrder (butlast created)
         \<and> actor_items actor' = actor_items (deleteAttached actor ''class'') @ created"
proof -
  let ?src' = "src\<lparr>ident := randomID g n, insertedClassFeaturesLevel := Some (actor_level actor)\<rparr>"
  from class_features_sorted_aux[OF assms] obtain resolved where
    res: "getClassFeaturesForLevel g (Suc n) ?src' 0 (actor_level actor) = Inr (n', resolved)"
    and cr: "created = sortBy compareFeatures resolved @ [?src']"
    and ac: "actor_items actor' = actor_items (deleteAttached actor ''class'') @ created"
    by blast
  have "sorted_wrt featureOrder (butlast created)"
    by (simp add: cr sorted_sortBy)
  with res cr ac show ?thesis
    by (simp add: mset_sortBy sorted_sortBy)
qed

theorem class_features_sorted_witness:
  "map name (createdOf (addABCItem demoGame 0 demoOrderClass demoLevel3Actor None))
     = [''Alpha'', ''Beta'', ''Zeta'', ''Fighter'']
   \<and> map level (createdOf (addABCItem demoGame 0 demoOrderClass demoLevel3Actor None))
     = [1, 1, 3, 0]"
  using class_features_sorted[of demoOrderClass demoGame 0 demoLevel3Actor None
      "fst (projr (addABCItem demoGame 0 demoOrderClass demoLevel3Actor None))"
      "fst (snd (projr (addABCItem demoGame 0 demoOrderClass demoLevel3Actor None)))"
      "snd (snd (projr (addABCItem demoGame 0 demoOrderClass demoLevel3Actor None)))"]
  by (simp add: createdOf_def demoLevel3Actor_def demo_defs eval_defs actor_defs addABCItem_def
      sortBy_def compareFeatures_def)

text \<open>
  C2 as stated fails on its example: the order is not Beta, Alpha, Zeta.
\<close>

theorem class_features_order_counterexample:
  "map entry_level (items demoOrderClass) = [3, 1, 1]
   \<and> map name (butlast (createdOf (addABCItem demoGame 0 demoOrderClass demoLevel3Actor None)))
       = [''Alpha'', ''Beta'', ''Zeta'']
   \<and> map name (butlast (createdOf (addABCItem demoGame 0 demoOrderClass demoLevel3Actor None)))
       \<noteq> [''Beta'', ''Alpha'', ''Zeta'']"
  by (simp add: createdOf_def demoLevel3Actor_def demo_defs eval_defs actor_defs addABCItem_def
      sortBy_def compareFeatures_def)

text \<open>
  C1 (amended). After a class attach that succeeds at level N, the documents created are
  the resolved features and then the class; the features are exactly the clones of the
  records named by the entries of the class whose level is above 0 and at most N (an entry
  of level 0 is not selected); and every created feature tagged as a class feature has a
  level above 0 and at most N, or is a world item taken with the level it has.
\<close>

theorem class_attach_window:
  assumes cls: "itype src = ''class''"
    and run: "addABCItem g n src actor options = Inr (n', actor', created)"
  shows "created = butlast created
           @ [src\<lparr>ident := randomID g n, insertedClassFeaturesLevel := Some (actor_level actor)\<rparr>]
       \<and> actor_items actor' = actor_items (deleteAttached actor ''class'') @ created
       \<and> (\<forall>f \<in> set (butlast created). \<exists>e \<in> set (items src). \<exists>s.
             0 < entry_level e \<and> entry_level e \<le> actor_level actor
             \<and> resolvesTo g e s \<and> cloneOf f s)
       \<and> (\<forall>e \<in> set (items src). \<forall>s.
             0 < entry_level e \<and> entry_level e \<le> actor_level actor \<and> resolvesTo g e s \<longrightarrow>
             (\<exists>f \<in> set (butlast created). cloneOf f s))
       \<and> (\<forall>f \<in> set (butlast created). featType f = ''classfeature'' \<longrightarrow>
             (0 < level f \<and> level f \<le> actor_level actor)
             \<or> (\<exists>e \<in> set (items src). \<exists>s. \<not> isPackEntry e
                   \<and> game_items g (entry_id e) = Some s \<and> f = s\<lparr>ident := ident f\<rparr>))"
proof -
  let ?N = "actor_level actor"
  let ?src' = "src\<lparr>ident := randomID g n, insertedClassFeaturesLevel := Some ?N\<rparr>"
  let ?w = "filter (inWindow 0 ?N) (items src)"
  from class_features_sorted_aux[OF cls run] obtain resolved where
    res: "getClassFeaturesForLevel g (Suc n) ?src' 0 ?N = Inr (n', resolved)"
    and cr: "created = sortBy compareFeatures resolved @ [?src']"
    and items': "actor_items actor' = actor_items (deleteAttached actor ''class'') @ created"
    by blast
  have bl: "butlast created = sortBy compareFeatures resolved"
    by (simp add: cr)
  have set_bl: "set (butlast created) = set resolved"
    unfolding bl using mset_sortBy[of compareFeatures resolved] by (metis set_mset_mset)
  from res have gf: "getFeatures g (Suc n) ?w (randomID g n) = Inr (n', resolved)"
    by (simp add: getClassFeaturesForLevel_eq)
  from getFeatures_split[OF gf] obtain n1 packed local where
    pk: "packFeats g (Suc n) ?w (randomID g n) = Inr (n1, packed)"
    and gm: "gameFeats g n1 (filter (\<lambda>entry. \<not> isPackEntry entry) ?w) = Inr (n', local)"
    and rs: "resolved = packed @ local"
    by blast
  have win: "\<And>e. e \<in> set ?w \<longleftrightarrow> e \<in> set (items src) \<and> 0 < entry_level e \<and> entry_level e \<le> ?N"
    by (auto simp: inWindow_def)
  have c1: "created = butlast created @ [?src']"
    by (simp add: cr)
  have sound: "\<forall>f \<in> set (butlast created). \<exists>e \<in> set (items src). \<exists>s.
             0 < entry_level e \<and> entry_level e \<le> ?N \<and> resolvesTo g e s \<and> cloneOf f s"
  proof
    fix f assume "f \<in> set (butlast created)"
    then consider "f \<in> set packed" | "f \<in> set local"
      using set_bl rs by auto
    then show "\<exists>e \<in> set (items src). \<exists>s.
             0 < entry_level e \<and> entry_level e \<le> ?N \<and> resolvesTo g e s \<and> cloneOf f s"
    proof cases
      case 1
      from packFeats_sound[OF pk 1] obtain e s where
        "e \<in> set ?w" "resolvesTo g e s" "cloneOf f s" by blast
      then show ?thesis using win by blast
    next
      case 2
      from gameFeats_sound[OF gm 2] obtain e s where
        e: "e \<in> set ?w" "\<not> isPackEntry e" "game_items g (entry_id e) = Some s"
        "f = s\<lparr>ident := ident f\<rparr>"
        by auto
      have "resolvesTo g e s" using e(2,3) by (simp add: resolvesTo_def)
      moreover have "cloneOf f s" using e(4) by (rule cloneOf_game)
      ultimately show ?thesis using e(1) win by blast
    qed
  qed
  have complete: "\<forall>e \<in> set (items src). \<forall>s.
             0 < entry_level e \<and> entry_level e \<le> ?N \<and> resolvesTo g e s \<longrightarrow>
             (\<exists>f \<in> set (butlast created). cloneOf f s)"
  proof (intro ballI allI impI)
    fix e s
    assume e: "e \<in> set (items src)"
      and h: "0 < entry_level e \<and> entry_level e \<le> ?N \<and> resolvesTo g e s"
    from e h have ew: "e \<in> set ?w" using win by blast
    show "\<exists>f \<in> set (butlast created). cloneOf f s"
    proof (cases "isPackEntry e")
      case True
      from packFeats_complete[OF pk ew True] h obtain f where "f \<in> set packed" "cloneOf f s"
        by blast
      then show ?thesis using set_bl rs by auto
    next
      case False
      with h have s: "game_items g (entry_id e) = Some s" by (simp add: resolvesTo_def)
      from ew False have "e \<in> set (filter (\<lambda>entry. \<not> isPackEntry entry) ?w)" by simp
      from gameFeats_complete[OF gm this s] obtain f where "f \<in> set local" "cloneOf f s"
        by blast
      then show ?thesis using set_bl rs by auto
    qed
  qed
  have levels: "\<forall>f \<in> set (butlast created). featType f = ''classfeature'' \<longrightarrow>
             (0 < level f \<and> level f \<le> ?N)
             \<or> (\<exists>e \<in> set (items src). \<exists>s. \<not> isPackEntry e
                   \<and> game_items g (entry_id e) = Some s \<and> f = s\<lparr>ident := ident f\<rparr>)"
  proof (intro ballI impI)
    fix f assume f: "f \<in> set (butlast created)" and tag: "featType f = ''classfeature''"
    from f consider "f \<in> set packed" | "f \<in> set local"
      using set_bl rs by auto
    then show "(0 < level f \<and> level f \<le> ?N)
             \<or> (\<exists>e \<in> set (items src). \<exists>s. \<not> isPackEntry e
                   \<and> game_items g (entry_id e) = Some s \<and> f = s\<lparr>ident := ident f\<rparr>)"
    proof cases
      case 1
      from packFeats_sound[OF pk 1] tag obtain entry where
        "entry \<in> set ?w" "level f = entry_level entry" by auto
      then show ?thesis using win by auto
    next
      case 2
      from gameFeats_sound[OF gm 2] obtain e s where
        "e \<in> set ?w" "\<not> isPackEntry e" "game_items g (entry_id e) = Some s"
        "f = s\<lparr>ident := ident f\<rparr>"
        by auto
      then show ?thesis using win by blast
    qed
  qed
  from c1 items' sound complete levels show ?thesis by blast
qed

theorem class_attach_window_witness:
  "map name (createdOf (addABCItem demoGame 0 demoZeroClass demoNewActor None))
     = [''Alpha'', ''Homebrew'', ''Rogue'']
   \<and> map level (createdOf (addABCItem demoGame 0 demoZeroClass demoNewActor None)) = [1, 10, 0]"
  using class_attach_window[of demoZeroClass demoGame 0 demoNewActor None
      "fst (projr (addABCItem demoGame 0 demoZeroClass demoNewActor None))"
      "fst (snd (projr (addABCItem demoGame 0 demoZeroClass demoNewActor None)))"
      "snd (snd (projr (addABCItem demoGame 0 demoZeroClass demoNewActor None)))"]
  by (simp add: createdOf_def demoZeroClass_def demoNewActor_def demo_defs eval_defs actor_defs
      addABCItem_def sortBy_def compareFeatures_def)

text \<open>
  C1 as stated fails: at level 1 the entry of level 0, which names the stored feature Beta,
  contributes nothing, and the world item named by an entry of level 1 is attached with
  its own level 10.
\<close>

theorem class_attach_level_zero_counterexample:
  "mkEntry (Some ''pf2e.classfeatures'') ''cb'' 0 \<in> set (items demoZeroClass)
   \<and> 0 \<le> entry_level (mkEntry (Some ''pf2e.classfeatures'') ''cb'' 0)
   \<and> entry_level (mkEntry (Some ''pf2e.classfeatures'') ''cb'' 0) \<le> actor_level demoNewActor
   \<and> resolvesTo demoGame (mkEntry (Some ''pf2e.classfeatures'') ''cb'' 0)
        (mkFeat ''cb'' ''Beta'' (Some ''beta'') 9 ''classfeature'' (Some ''Compendium.cb''))
   \<and> actor_level demoNewActor = 1
   \<and> map name (butlast (createdOf (addABCItem demoGame 0 demoZeroClass demoNewActor None)))
       = [''Alpha'', ''Homebrew'']
   \<and> map featType (butlast (createdOf (addABCItem demoGame 0 demoZeroClass demoNewActor None)))
       = [''classfeature'', ''classfeature'']
   \<and> map level (butlast (createdOf (addABCItem demoGame 0 demoZeroClass demoNewActor None)))
       = [1, 10]"
  by (simp add: createdOf_def demoZeroClass_def demoNewActor_def demo_defs eval_defs actor_defs
      addABCItem_def sortBy_def compareFeatures_def resolvesTo_def)




text \<open>
  C7 (amended). \<^verbatim>\<open>ensureClassFeaturesForLevel\<close> does not write the level of the character; its
  caller does. For a character with a class: after the call for a higher level, with the
  level then set to it and the identifiers of the items different, the call for the first
  level succeeds and leaves exactly the class features whose level is at most the first
  level. When the entries of the class all name packs and the class features at the start
  were at most at the first level, these are the class features of the start. Without the
  level being set, the second call does nothing.
\<close>

theorem sync_round_trip:
  assumes cls: "attachedOfType actor ''class'' = Some actorClass"
    and up: "actor_level actor < high"
    and first: "ensureClassFeaturesForLevel g n actor high = Inr (n1, actor1)"
    and uniq: "distinct (map ident (actor_items actor1))"
  shows "\<exists>n2 actor2.
           ensureClassFeaturesForLevel g n1 (actor1\<lparr>actor_level := high\<rparr>) (actor_level actor)
             = Inr (n2, actor2)
         \<and> classFeatures actor2
             = filter (\<lambda>f. level f \<le> actor_level actor) (classFeatures actor1)
         \<and> (\<forall>f \<in> set (classFeatures actor2). level f \<le> actor_level actor)
         \<and> ((\<forall>e \<in> set (items actorClass). isPackEntry e)
              \<and> (\<forall>f \<in> set (classFeatures actor). level f \<le> actor_level actor)
              \<longrightarrow> classFeatures actor2 = classFeatures actor)
         \<and> ensureClassFeaturesForLevel g n1 actor1 (actor_level actor) = Inr (n1, actor1)"
proof -
  let ?low = "actor_level actor"
  let ?cur = "classFeatures actor"
  let ?w = "filter (inWindow ?low high) (items actorClass)"
  from first up cls obtain window where
    w: "getClassFeaturesForLevel g n actorClass ?low high = Inr (n1, window)"
    and a1: "actor1 = createEmbeddedDocuments actor (classFeaturesToCreate ?cur window)"
    by (auto simp: ensureClassFeaturesForLevel_def Let_def split: sum.splits)
  let ?new = "classFeaturesToCreate ?cur window"
  let ?C = "filter (\<lambda>feat. featType feat = ''classfeature'') (filter (\<lambda>i. itype i = ''feat'') ?new)"
  let ?b = "actor1\<lparr>actor_level := high\<rparr>"
  have cls_b: "attachedOfType ?b ''class'' = Some actorClass"
    using attachedOfType_create[OF cls, of ?new]
    by (simp add: a1 attachedOfType_def createEmbeddedDocuments_def)
  have lt_b: "?low < actor_level ?b" using up by simp
  have uniq_b: "distinct (map ident (actor_items ?b))" using uniq by simp
  have cf_b: "classFeatures ?b = classFeatures actor1"
    by (simp add: classFeatures_def)
  let ?a2 = "deleteEmbeddedDocuments ?b (classFeaturesToDelete (classFeatures ?b) ?low)"
  from sync_down_exact[OF cls_b lt_b uniq_b, of g n1]
  have second: "ensureClassFeaturesForLevel g n1 ?b ?low = Inr (n1, ?a2)"
    and exact: "classFeatures ?a2 = filter (\<lambda>f. level f \<le> ?low) (classFeatures actor1)"
    unfolding cf_b by simp_all
  have below: "\<forall>f \<in> set (classFeatures ?a2). level f \<le> ?low"
    unfolding exact by simp
  have start: "(\<forall>e \<in> set (items actorClass). isPackEntry e)
              \<and> (\<forall>f \<in> set ?cur. level f \<le> ?low)
              \<longrightarrow> classFeatures ?a2 = ?cur"
  proof
    assume h: "(\<forall>e \<in> set (items actorClass). isPackEntry e) \<and> (\<forall>f \<in> set ?cur. level f \<le> ?low)"
    from w have gf: "getFeatures g n ?w (ident actorClass) = Inr (n1, window)"
      by (simp add: getClassFeaturesForLevel_eq)
    have repo_w: "\<forall>e \<in> set ?w. isPackEntry e" using h by simp
    from packFeats_only[OF repo_w gf]
    have pk: "packFeats g n ?w (ident actorClass) = Inr (n1, window)" .
    have higher: "\<forall>f \<in> set window. featType f = ''classfeature'' \<longrightarrow> ?low < level f"
    proof (intro ballI impI)
      fix f assume f: "f \<in> set window" and tag: "featType f = ''classfeature''"
      from packFeats_sound[OF pk f] tag obtain entry where
        "entry \<in> set ?w" "level f = entry_level entry" by auto
      then show "?low < level f" by (simp add: inWindow_def)
    qed
    have new_sub: "set ?new \<subseteq> set window"
      by (auto simp: classFeaturesToCreate_mem)
    have cur1: "classFeatures actor1 = ?cur @ ?C"
      unfolding a1 by (rule classFeatures_create)
    have "filter (\<lambda>f. level f \<le> ?low) ?cur = ?cur"
      using h by (simp add: filter_id_conv)
    moreover have "filter (\<lambda>f. level f \<le> ?low) ?C = []"
      using higher new_sub by (auto simp: filter_empty_conv)
    ultimately show "classFeatures ?a2 = ?cur"
      unfolding exact cur1 by simp
  qed
  have noop: "ensureClassFeaturesForLevel g n1 actor1 ?low = Inr (n1, actor1)"
  proof -
    have "actor_level actor1 = ?low" by (simp add: a1 createEmbeddedDocuments_def)
    then show ?thesis
      by (simp add: ensureClassFeaturesForLevel_def Let_def split: option.splits)
  qed
  from second exact below start noop show ?thesis by blast
qed

theorem sync_round_trip_witness:
  "addABCItem demoGame 0 demoClass demoNewActor None
     = Inr (Suc (Suc 0), demoLevel1Actor, actor_items demoLevel1Actor)
   \<and> ensureClassFeaturesForLevel demoGame (Suc (Suc 0)) demoLevel1Actor 5
     = Inr (Suc (Suc (Suc (Suc (Suc 0)))), demoSyncedActor)
   \<and> classFeatures (actorOf (ensureClassFeaturesForLevel demoGame (Suc (Suc (Suc (Suc (Suc 0)))))
        (demoSyncedActor\<lparr>actor_level := 5\<rparr>) 1)) = classFeatures demoLevel1Actor
   \<and> map level (classFeatures demoLevel1Actor) = [1]"
proof -
  have cls: "attachedOfType demoLevel1Actor ''class''
               = Some (demoClass\<lparr>ident := ''r'', insertedClassFeaturesLevel := Some 1\<rparr>)"
    by (simp add: sync_demo_defs demo_defs actor_defs)
  have repo: "\<forall>e \<in> set (items (demoClass\<lparr>ident := ''r'', insertedClassFeaturesLevel := Some 1\<rparr>)).
                isPackEntry e"
    by (simp add: sync_demo_defs demo_defs isPackEntry_def)
  have inv: "\<forall>f \<in> set (classFeatures demoLevel1Actor). level f \<le> actor_level demoLevel1Actor"
    by (simp add: sync_demo_defs demo_defs actor_defs)
  have up: "actor_level demoLevel1Actor < 5"
    by (simp add: sync_demo_defs)
  have uniq: "distinct (map ident (actor_items demoSyncedActor))"
    by (simp add: sync_demo_defs demo_defs)
  have lv: "actor_level demoLevel1Actor = 1"
    by (simp add: sync_demo_defs)
  have one: "map level (classFeatures demoLevel1Actor) = [1]"
    by (simp add: sync_demo_defs demo_defs actor_defs)
  from sync_round_trip[OF cls up demo_sync_up uniq] repo inv demo_attach_level1 demo_sync_up one
  show ?thesis
    unfolding lv by (auto simp: actorOf_def)
qed

text \<open>
  C7 as stated fails: starting at level 1 with features granted at the levels 1, 2, 3 and 5,
  the call for level 5 and then the call for level 1 leave the features of the levels 2, 3
  and 5 attached.
\<close>

theorem sync_round_trip_counterexample:
  "addABCItem demoGame 0 demoClass demoNewActor None
     = Inr (Suc (Suc 0), demoLevel1Actor, actor_items demoLevel1Actor)
   \<and> map entry_level (items demoClass) = [1, 2, 3, 5]
   \<and> actor_level demoLevel1Actor = 1
   \<and> map level (classFeatures demoLevel1Actor) = [1]
   \<and> ensureClassFeaturesForLevel demoGame (Suc (Suc 0)) demoLevel1Actor 5
     = Inr (Suc (Suc (Suc (Suc (Suc 0)))), demoSyncedActor)
   \<and> ensureClassFeaturesForLevel demoGame (Suc (Suc (Suc (Suc (Suc 0))))) demoSyncedActor 1
     = Inr (Suc (Suc (Suc (Suc (Suc 0)))), demoSyncedActor)
   \<and> map level (classFeatures demoSyncedActor) = [1, 3, 2, 5]"
  by (simp add: sync_demo_defs demo_defs eval_defs actor_defs addABCItem_def sortBy_def
      compareFeatures_def)

end
